theory Spec2Isabelle
  imports Complex_Main "HOL-Library.Signed_Division"
begin

section \<open>Conventions of the embedding\<close>

text \<open>
  The library is C++: \<^verbatim>\<open>StatisticalTools.hpp\<close> (factorial, combination),
  \<^verbatim>\<open>Statistics.hpp\<close> (the descriptive-statistics engine) and
  \<^verbatim>\<open>models/{Binomial,Geometric,DiscreteUniform}.hpp\<close>.

  \<^item> \<^verbatim>\<open>int\<close> is the 32-bit two's-complement integer. Values are HOL integers and every
    \<^verbatim>\<open>int\<close> operation of the source that can leave the range is wrapped by \<open>wrap32\<close>
    (signed overflow is undefined in C++; the wrap-around is what the compiled code
    does). \<^verbatim>\<open>/\<close> on \<^verbatim>\<open>int\<close> truncates towards zero (\<open>sdiv\<close>); a zero divisor is the
    outcome \<open>DivisionByZero\<close> (the hardware trap), which is not a C++ exception.
  \<^item> \<^verbatim>\<open>double\<close> is idealised: a finite double is a real number and arithmetic is exact
    (no rounding). An operation with no real value (a zero divisor, a zero base with a
    negative exponent) gives \<open>NonFinite\<close>, standing for the infinities and NaN, about
    which the model says nothing more: \<open>NonFinite\<close> is absorbing.
  \<^item> every \<^verbatim>\<open>throw std::runtime_error(msg)\<close> is the value \<open>RuntimeError msg\<close>; a
    function that can throw returns \<open>error + 'a\<close>.  A member function that assigns to
    the object before it throws returns an \<open>outcome\<close>, which carries the object as the
    call leaves it in both cases.
\<close>

datatype error = RuntimeError string | DivisionByZero | EndDereferenced

datatype 's outcome = Returns 's | Throws error 's

datatype double = Finite real | NonFinite

definition is_int32 :: "int \<Rightarrow> bool" where
  "is_int32 i = (- 2147483648 \<le> i \<and> i \<le> 2147483647)"

definition wrap32 :: "int \<Rightarrow> int" where
  "wrap32 i = (i + 2147483648) mod 4294967296 - 2147483648"

text \<open>The error taxonomy of the specification, as a classification of the messages
  the source throws.\<close>

definition EmptyData :: "error \<Rightarrow> bool" where
  "EmptyData e = (e = RuntimeError ''Values are empty'')"

definition InvalidArgument :: "error \<Rightarrow> bool" where
  "InvalidArgument e =
     (e = RuntimeError ''Factorial is not defined for negative numbers'' \<or>
      e = RuntimeError ''Number of trials is negative'' \<or>
      e = RuntimeError ''Probability of success is not between 0 and 1'' \<or>
      e = RuntimeError ''First value is greater than last value'')"

subsection \<open>Arithmetic on idealised doubles\<close>

definition dbl_mul :: "double \<Rightarrow> double \<Rightarrow> double" where
  "dbl_mul a b =
     (case a of NonFinite \<Rightarrow> NonFinite
      | Finite x \<Rightarrow> (case b of NonFinite \<Rightarrow> NonFinite | Finite y \<Rightarrow> Finite (x * y)))"

definition dbl_div :: "double \<Rightarrow> double \<Rightarrow> double" where
  "dbl_div a b =
     (case a of NonFinite \<Rightarrow> NonFinite
      | Finite x \<Rightarrow>
          (case b of NonFinite \<Rightarrow> NonFinite
           | Finite y \<Rightarrow> if y = 0 then NonFinite else Finite (x / y)))"

definition dbl_sqrt :: "double \<Rightarrow> double" where
  "dbl_sqrt a =
     (case a of NonFinite \<Rightarrow> NonFinite
      | Finite x \<Rightarrow> if x < 0 then NonFinite else Finite (sqrt x))"

text \<open>\<^verbatim>\<open>std::pow(double, int)\<close>: repeated multiplication, the reciprocal for a negative
  exponent; \<^verbatim>\<open>pow(x, 0)\<close> is 1 for every \<open>x\<close>, \<^verbatim>\<open>pow(0, n)\<close> with \<open>n < 0\<close> is infinite.\<close>

definition pow :: "real \<Rightarrow> int \<Rightarrow> double" where
  "pow x n =
     (if 0 \<le> n then Finite (x ^ nat n)
      else if x = 0 then NonFinite
      else Finite (1 / x ^ nat (- n)))"

section \<open>StatisticalTools.hpp\<close>

function factorial :: "int \<Rightarrow> error + int" where
  "factorial x =
     (if x < 0 then Inl (RuntimeError ''Factorial is not defined for negative numbers'')
      else if x \<le> 1 then Inr 1
      else (case factorial (x - 1) of
              Inl e \<Rightarrow> Inl e
            | Inr r \<Rightarrow> Inr (wrap32 (x * r))))"
  by pat_completeness auto
termination
  by (relation "measure nat") auto

declare factorial.simps [simp del]

text \<open>\<^verbatim>\<open>factorial(n) / (factorial(n - x) * factorial(x))\<close>. The three calls throw the same
  exception, so the order in which C++ evaluates them does not show.\<close>

definition combination :: "int \<Rightarrow> int \<Rightarrow> error + int" where
  "combination n x =
     (case factorial n of
        Inl e \<Rightarrow> Inl e
      | Inr a \<Rightarrow>
          (case factorial (wrap32 (n - x)) of
             Inl e \<Rightarrow> Inl e
           | Inr b \<Rightarrow>
               (case factorial x of
                  Inl e \<Rightarrow> Inl e
                | Inr c \<Rightarrow>
                    (let d = wrap32 (b * c)
                     in if d = 0 then Inl DivisionByZero
                        else Inr (wrap32 (a sdiv d))))))"

section \<open>models/Binomial.hpp\<close>

record Binomial =
  numberOfTrials :: int
  probabilityOfSuccess :: real

definition checkNumberOfTrials :: "Binomial \<Rightarrow> error + unit" where
  "checkNumberOfTrials b =
     (if numberOfTrials b < 0 then Inl (RuntimeError ''Number of trials is negative'')
      else Inr ())"

definition checkProbabilityOfSuccess :: "Binomial \<Rightarrow> error + unit" where
  "checkProbabilityOfSuccess b =
     (if probabilityOfSuccess b < 0 \<or> probabilityOfSuccess b > 1
      then Inl (RuntimeError ''Probability of success is not between 0 and 1'')
      else Inr ())"

definition checkDistribution :: "Binomial \<Rightarrow> error + unit" where
  "checkDistribution b =
     (case checkNumberOfTrials b of
        Inl e \<Rightarrow> Inl e
      | Inr _ \<Rightarrow> checkProbabilityOfSuccess b)"

text \<open>The constructor: the members are initialised, then checked; a throw leaves no object.\<close>

definition Binomial_new :: "int \<Rightarrow> real \<Rightarrow> error + Binomial" where
  "Binomial_new n p =
     (let b = \<lparr>numberOfTrials = n, probabilityOfSuccess = p\<rparr>
      in case checkDistribution b of Inl e \<Rightarrow> Inl e | Inr _ \<Rightarrow> Inr b)"

definition Binomial_getProbability :: "Binomial \<Rightarrow> int \<Rightarrow> error + double" where
  "Binomial_getProbability b numberOfSuccesses =
     (if numberOfSuccesses < 0 \<or> numberOfSuccesses > numberOfTrials b then Inr (Finite 0)
      else
        (case combination (numberOfTrials b) numberOfSuccesses of
           Inl e \<Rightarrow> Inl e
         | Inr combinations \<Rightarrow>
             (let probabilityOfSuccesses = pow (probabilityOfSuccess b) numberOfSuccesses;
                  probabilityOfFails =
                    pow (1 - probabilityOfSuccess b)
                      (wrap32 (numberOfTrials b - numberOfSuccesses))
              in Inr (dbl_mul (dbl_mul (Finite (real_of_int combinations))
                                 probabilityOfSuccesses) probabilityOfFails))))"

text \<open>The setters assign the member first and validate the object afterwards.\<close>

definition Binomial_setNumberOfTrials :: "Binomial \<Rightarrow> int \<Rightarrow> Binomial outcome" where
  "Binomial_setNumberOfTrials b n =
     (let b' = b\<lparr>numberOfTrials := n\<rparr>
      in case checkDistribution b' of Inl e \<Rightarrow> Throws e b' | Inr _ \<Rightarrow> Returns b')"

definition Binomial_setProbabilityOfSuccess :: "Binomial \<Rightarrow> real \<Rightarrow> Binomial outcome" where
  "Binomial_setProbabilityOfSuccess b p =
     (let b' = b\<lparr>probabilityOfSuccess := p\<rparr>
      in case checkDistribution b' of Inl e \<Rightarrow> Throws e b' | Inr _ \<Rightarrow> Returns b')"

definition Binomial_mean :: "Binomial \<Rightarrow> real" where
  "Binomial_mean b = real_of_int (numberOfTrials b) * probabilityOfSuccess b"

definition Binomial_variance :: "Binomial \<Rightarrow> real" where
  "Binomial_variance b =
     real_of_int (numberOfTrials b) * probabilityOfSuccess b * (1 - probabilityOfSuccess b)"

section \<open>models/Geometric.hpp\<close>

text \<open>The member is \<^verbatim>\<open>probabilityOfSuccess\<close>, as in \<^verbatim>\<open>Binomial\<close>; the field of this record
  carries the class's initial to keep the two apart.\<close>

record Geometric =
  probabilityOfSuccessG :: real

definition Geometric_checkProbabilityOfSuccess :: "Geometric \<Rightarrow> error + unit" where
  "Geometric_checkProbabilityOfSuccess g =
     (if probabilityOfSuccessG g < 0 \<or> probabilityOfSuccessG g > 1
      then Inl (RuntimeError ''Probability of success is not between 0 and 1'')
      else Inr ())"

definition Geometric_new :: "real \<Rightarrow> error + Geometric" where
  "Geometric_new p =
     (let g = \<lparr>probabilityOfSuccessG = p\<rparr>
      in case Geometric_checkProbabilityOfSuccess g of Inl e \<Rightarrow> Inl e | Inr _ \<Rightarrow> Inr g)"

definition Geometric_getProbability :: "Geometric \<Rightarrow> int \<Rightarrow> double" where
  "Geometric_getProbability g replicasMade =
     (if replicasMade < 0 then Finite 0
      else dbl_mul (pow (1 - probabilityOfSuccessG g) (wrap32 (replicasMade - 1)))
             (Finite (probabilityOfSuccessG g)))"

definition Geometric_setProbabilityOfSuccess :: "Geometric \<Rightarrow> real \<Rightarrow> Geometric outcome" where
  "Geometric_setProbabilityOfSuccess g p =
     (let g' = g\<lparr>probabilityOfSuccessG := p\<rparr>
      in case Geometric_checkProbabilityOfSuccess g' of
           Inl e \<Rightarrow> Throws e g'
         | Inr _ \<Rightarrow> Returns g')"

definition Geometric_mean :: "Geometric \<Rightarrow> double" where
  "Geometric_mean g = dbl_div (Finite 1) (Finite (probabilityOfSuccessG g))"

definition Geometric_variance :: "Geometric \<Rightarrow> double" where
  "Geometric_variance g =
     dbl_div (Finite (1 - probabilityOfSuccessG g)) (pow (probabilityOfSuccessG g) 2)"

section \<open>models/DiscreteUniform.hpp\<close>

record DiscreteUniform =
  firstValue :: int
  lastValue :: int

definition checkInterval :: "DiscreteUniform \<Rightarrow> error + unit" where
  "checkInterval d =
     (if firstValue d > lastValue d
      then Inl (RuntimeError ''First value is greater than last value'')
      else Inr ())"

definition DiscreteUniform_new :: "int \<Rightarrow> int \<Rightarrow> error + DiscreteUniform" where
  "DiscreteUniform_new f l =
     (let d = \<lparr>firstValue = f, lastValue = l\<rparr>
      in case checkInterval d of Inl e \<Rightarrow> Inl e | Inr _ \<Rightarrow> Inr d)"

text \<open>\<^verbatim>\<open>1.0 / (lastValue - firstValue + 1)\<close>: the divisor is computed in \<^verbatim>\<open>int\<close>.\<close>

definition DiscreteUniform_getProbability :: "DiscreteUniform \<Rightarrow> int \<Rightarrow> double" where
  "DiscreteUniform_getProbability d v =
     (if v < firstValue d \<or> v > lastValue d then Finite 0
      else dbl_div (Finite 1)
             (Finite (real_of_int (wrap32 (wrap32 (lastValue d - firstValue d) + 1)))))"

definition DiscreteUniform_setInterval ::
  "DiscreteUniform \<Rightarrow> int \<Rightarrow> int \<Rightarrow> DiscreteUniform outcome" where
  "DiscreteUniform_setInterval d f l =
     (let d' = d\<lparr>firstValue := f, lastValue := l\<rparr>
      in case checkInterval d' of Inl e \<Rightarrow> Throws e d' | Inr _ \<Rightarrow> Returns d')"

text \<open>\<^verbatim>\<open>(firstValue + lastValue) / 2\<close> and
  \<^verbatim>\<open>(lastValue - firstValue) * (lastValue - firstValue + 2) / 12\<close> are \<^verbatim>\<open>int\<close>
  expressions; the quotient is converted to \<^verbatim>\<open>double\<close> on return.\<close>

definition DiscreteUniform_mean :: "DiscreteUniform \<Rightarrow> real" where
  "DiscreteUniform_mean d = real_of_int (wrap32 (firstValue d + lastValue d) sdiv 2)"

definition DiscreteUniform_variance :: "DiscreteUniform \<Rightarrow> real" where
  "DiscreteUniform_variance d =
     real_of_int
       (wrap32 (wrap32 (lastValue d - firstValue d)
                * wrap32 (wrap32 (lastValue d - firstValue d) + 2)) sdiv 12)"

section \<open>Statistics.hpp\<close>

text \<open>
  \<^verbatim>\<open>Statistics<TYPE>\<close> is modelled at \<^verbatim>\<open>TYPE = int\<close>, the instance \<^verbatim>\<open>main.cpp\<close> uses.
  A sample holds fewer than \<open>2\<^sup>3\<^sup>1\<close> values, so \<^verbatim>\<open>int size()\<close> is the length of the
  vector and the counters of \<^verbatim>\<open>mode\<close> do not wrap.
\<close>

record Statistics =
  "values" :: "int list"
  populationData :: bool

definition ensureNotEmpty :: "Statistics \<Rightarrow> error + unit" where
  "ensureNotEmpty s =
     (if values s = [] then Inl (RuntimeError ''Values are empty'') else Inr ())"

definition Statistics_new :: "int list \<Rightarrow> bool \<Rightarrow> Statistics" where
  "Statistics_new list p = \<lparr>values = list, populationData = p\<rparr>"

definition getValues :: "Statistics \<Rightarrow> int list" where
  "getValues s = values s"

definition isPopulationData :: "Statistics \<Rightarrow> bool" where
  "isPopulationData s = populationData s"

definition setValues :: "Statistics \<Rightarrow> int list \<Rightarrow> Statistics" where
  "setValues s list = s\<lparr>values := list\<rparr>"

definition setPopulationData :: "Statistics \<Rightarrow> bool \<Rightarrow> Statistics" where
  "setPopulationData s p = s\<lparr>populationData := p\<rparr>"

definition size_S :: "Statistics \<Rightarrow> int" where
  "size_S s = int (length (values s))"

text \<open>The loop \<^verbatim>\<open>for (auto const& value : values) sum += function(value);\<close>\<close>

definition calculateSum :: "Statistics \<Rightarrow> (int \<Rightarrow> real) \<Rightarrow> real" where
  "calculateSum s function = fold (\<lambda>value sum. sum + function value) (values s) 0"

definition mean :: "Statistics \<Rightarrow> real" where
  "mean s =
     (if values s = [] then 0 else calculateSum s real_of_int / real_of_int (size_S s))"

text \<open>\<^verbatim>\<open>median\<close> is not \<^verbatim>\<open>const\<close>: it sorts the stored vector. The result is paired with
  the object after the call. \<^verbatim>\<open>values[mid - 1] + values[mid]\<close> is an \<^verbatim>\<open>int\<close> sum.\<close>

definition median :: "Statistics \<Rightarrow> (error + real) \<times> Statistics" where
  "median s =
     (case ensureNotEmpty s of
        Inl e \<Rightarrow> (Inl e, s)
      | Inr _ \<Rightarrow>
          (let s' = s\<lparr>values := sort (values s)\<rparr>;
               mid = length (values s') div 2
           in (Inr (if length (values s') mod 2 = 0
                    then real_of_int (wrap32 (values s' ! (mid - 1) + values s' ! mid)) / 2
                    else real_of_int (values s' ! mid)),
               s')))"

text \<open>
  \<^verbatim>\<open>mode\<close>: the \<^verbatim>\<open>std::unordered_map<TYPE, int>\<close> is a list of entries with distinct
  keys; \<^verbatim>\<open>++frequency[value]\<close> increments the entry of the key, inserting it with
  count 0 first when it is absent. The order in which the map is traversed is
  unspecified: it is the order of an arbitrary ranking \<open>bucket\<close> of the keys, a
  parameter of the model. \<^verbatim>\<open>std::max_element\<close> keeps the first of the largest
  elements and returns the end iterator (\<open>None\<close>) for an empty range.
\<close>

fun increment :: "int \<Rightarrow> (int \<times> int) list \<Rightarrow> (int \<times> int) list" where
  "increment k [] = [(k, 0 + 1)]"
| "increment k ((k', c) # es) =
     (if k = k' then (k', c + 1) # es else (k', c) # increment k es)"

definition frequency :: "int list \<Rightarrow> (int \<times> int) list" where
  "frequency vs = fold increment vs []"

definition traversal :: "(int \<Rightarrow> nat) \<Rightarrow> (int \<times> int) list \<Rightarrow> (int \<times> int) list" where
  "traversal bucket es = sort_key (\<lambda>e. bucket (fst e)) es"

fun max_element :: "('a \<Rightarrow> 'a \<Rightarrow> bool) \<Rightarrow> 'a list \<Rightarrow> 'a option" where
  "max_element cmp [] = None"
| "max_element cmp (x # xs) =
     Some (fold (\<lambda>y largest. if cmp largest y then y else largest) xs x)"

definition mode :: "(int \<Rightarrow> nat) \<Rightarrow> Statistics \<Rightarrow> error + int" where
  "mode bucket s =
     (case ensureNotEmpty s of
        Inl e \<Rightarrow> Inl e
      | Inr _ \<Rightarrow>
          (case max_element (\<lambda>a b. snd a < snd b) (traversal bucket (frequency (values s))) of
             None \<Rightarrow> Inl EndDereferenced
           | Some e \<Rightarrow> Inr (fst e)))"

text \<open>\<^verbatim>\<open>std::minmax_element\<close> yields the smallest and the largest value; the difference is
  an \<^verbatim>\<open>int\<close>.\<close>

definition amplitude :: "Statistics \<Rightarrow> error + int" where
  "amplitude s =
     (case ensureNotEmpty s of
        Inl e \<Rightarrow> Inl e
      | Inr _ \<Rightarrow> Inr (wrap32 (Max (set (values s)) - Min (set (values s)))))"

text \<open>\<^verbatim>\<open>std::pow(value - meanOfValues, 2)\<close> is the square; \<^verbatim>\<open>sumOfValues / size()\<close> and
  \<^verbatim>\<open>sumOfValues / (size() - 1)\<close> are \<^verbatim>\<open>double\<close> divisions by a converted \<^verbatim>\<open>int\<close>.\<close>

definition variance :: "Statistics \<Rightarrow> double" where
  "variance s =
     (if values s = [] then Finite 0
      else
        (let meanOfValues = mean s;
             sumOfValues = calculateSum s (\<lambda>value. (real_of_int value - meanOfValues)\<^sup>2)
         in if populationData s
            then dbl_div (Finite sumOfValues) (Finite (real_of_int (size_S s)))
            else dbl_div (Finite sumOfValues) (Finite (real_of_int (wrap32 (size_S s - 1))))))"

definition standardDeviation :: "Statistics \<Rightarrow> double" where
  "standardDeviation s = dbl_sqrt (variance s)"

definition coefficientOfVariation :: "Statistics \<Rightarrow> double" where
  "coefficientOfVariation s =
     (if mean s = 0 then Finite 0 else dbl_div (standardDeviation s) (Finite (mean s)))"

section \<open>Validation of the distributions' parameters\<close>

text \<open>
  Claim C1 (as amended). For each distribution in a valid state, a setter called with a
  parameter that violates the domain constraint throws \<^verbatim>\<open>std::runtime_error\<close> (the
  specification's InvalidArgument), and the object it leaves behind holds the rejected
  parameter: the setter assigns the member before it validates and does not restore it.
  The other member of a \<^verbatim>\<open>Binomial\<close> is unchanged.
\<close>

theorem setters_store_rejected_parameter:
  "(checkDistribution b = Inr () \<and> n < 0 \<longrightarrow>
      Binomial_setNumberOfTrials b n =
        Throws (RuntimeError ''Number of trials is negative'') (b\<lparr>numberOfTrials := n\<rparr>)) \<and>
   (checkDistribution b = Inr () \<and> (p < 0 \<or> 1 < p) \<longrightarrow>
      Binomial_setProbabilityOfSuccess b p =
        Throws (RuntimeError ''Probability of success is not between 0 and 1'')
          (b\<lparr>probabilityOfSuccess := p\<rparr>)) \<and>
   (Geometric_checkProbabilityOfSuccess g = Inr () \<and> (p < 0 \<or> 1 < p) \<longrightarrow>
      Geometric_setProbabilityOfSuccess g p =
        Throws (RuntimeError ''Probability of success is not between 0 and 1'')
          (g\<lparr>probabilityOfSuccessG := p\<rparr>)) \<and>
   (checkInterval d = Inr () \<and> l < f \<longrightarrow>
      DiscreteUniform_setInterval d f l =
        Throws (RuntimeError ''First value is greater than last value'')
          (d\<lparr>firstValue := f, lastValue := l\<rparr>)) \<and>
   InvalidArgument (RuntimeError ''Number of trials is negative'') \<and>
   InvalidArgument (RuntimeError ''Probability of success is not between 0 and 1'') \<and>
   InvalidArgument (RuntimeError ''First value is greater than last value'')"
  by (auto simp: Binomial_setNumberOfTrials_def Binomial_setProbabilityOfSuccess_def
      Geometric_setProbabilityOfSuccess_def DiscreteUniform_setInterval_def
      checkDistribution_def checkNumberOfTrials_def checkProbabilityOfSuccess_def
      Geometric_checkProbabilityOfSuccess_def checkInterval_def InvalidArgument_def
      split: if_splits sum.splits)

theorem setters_store_rejected_parameter_witness:
  "Binomial_setNumberOfTrials \<lparr>numberOfTrials = 10, probabilityOfSuccess = 1/2\<rparr> (- 3) =
     Throws (RuntimeError ''Number of trials is negative'')
       \<lparr>numberOfTrials = - 3, probabilityOfSuccess = 1/2\<rparr> \<and>
   Binomial_setProbabilityOfSuccess \<lparr>numberOfTrials = 10, probabilityOfSuccess = 1/2\<rparr> 2 =
     Throws (RuntimeError ''Probability of success is not between 0 and 1'')
       \<lparr>numberOfTrials = 10, probabilityOfSuccess = 2\<rparr> \<and>
   Geometric_setProbabilityOfSuccess \<lparr>probabilityOfSuccessG = 1/2\<rparr> 2 =
     Throws (RuntimeError ''Probability of success is not between 0 and 1'')
       \<lparr>probabilityOfSuccessG = 2\<rparr> \<and>
   DiscreteUniform_setInterval \<lparr>firstValue = 1, lastValue = 6\<rparr> 6 1 =
     Throws (RuntimeError ''First value is greater than last value'')
       \<lparr>firstValue = 6, lastValue = 1\<rparr>"
  using setters_store_rejected_parameter
    [of "\<lparr>numberOfTrials = 10, probabilityOfSuccess = 1/2\<rparr>" "- 3" 2
        "\<lparr>probabilityOfSuccessG = 1/2\<rparr>" "\<lparr>firstValue = 1, lastValue = 6\<rparr>" 1 6]
  by (simp add: checkDistribution_def checkNumberOfTrials_def checkProbabilityOfSuccess_def
      Geometric_checkProbabilityOfSuccess_def checkInterval_def)

text \<open>
  The claim as stated fails: after \<^verbatim>\<open>Binomial(10, 0.5).setNumberOfTrials(-1)\<close> has thrown,
  the object holds \<open>-1\<close> trials, and \<^verbatim>\<open>mean()\<close> answers \<open>-1/2\<close>.
\<close>

theorem failed_setter_changes_state:
  "Binomial_new 10 (1/2) = Inr \<lparr>numberOfTrials = 10, probabilityOfSuccess = 1/2\<rparr> \<and>
   Binomial_setNumberOfTrials \<lparr>numberOfTrials = 10, probabilityOfSuccess = 1/2\<rparr> (- 1) =
     Throws (RuntimeError ''Number of trials is negative'')
       \<lparr>numberOfTrials = - 1, probabilityOfSuccess = 1/2\<rparr> \<and>
   \<lparr>numberOfTrials = - 1, probabilityOfSuccess = 1/2\<rparr> \<noteq>
     \<lparr>numberOfTrials = 10, probabilityOfSuccess = 1/2\<rparr> \<and>
   Binomial_mean \<lparr>numberOfTrials = - 1, probabilityOfSuccess = 1/2\<rparr> = - 1/2"
  by (simp add: Binomial_new_def Binomial_setNumberOfTrials_def checkDistribution_def
      checkNumberOfTrials_def checkProbabilityOfSuccess_def Binomial_mean_def)

text \<open>
  Claim C4 (as amended). \<^verbatim>\<open>Geometric\<close>'s constructor and \<^verbatim>\<open>setProbabilityOfSuccess\<close>
  throw exactly for \<open>p < 0\<close> and for \<open>p > 1\<close>; every \<open>p\<close> of the closed interval
  \<open>[0, 1]\<close>, zero included, is accepted.
\<close>

theorem Geometric_accepts_closed_unit_interval:
  "(p < 0 \<or> 1 < p \<longrightarrow>
      Geometric_new p = Inl (RuntimeError ''Probability of success is not between 0 and 1'') \<and>
      Geometric_setProbabilityOfSuccess g p =
        Throws (RuntimeError ''Probability of success is not between 0 and 1'')
          (g\<lparr>probabilityOfSuccessG := p\<rparr>)) \<and>
   (0 \<le> p \<and> p \<le> 1 \<longrightarrow>
      Geometric_new p = Inr \<lparr>probabilityOfSuccessG = p\<rparr> \<and>
      Geometric_setProbabilityOfSuccess g p = Returns (g\<lparr>probabilityOfSuccessG := p\<rparr>)) \<and>
   InvalidArgument (RuntimeError ''Probability of success is not between 0 and 1'')"
  by (auto simp: Geometric_new_def Geometric_setProbabilityOfSuccess_def
      Geometric_checkProbabilityOfSuccess_def InvalidArgument_def)

theorem Geometric_accepts_closed_unit_interval_witness:
  "Geometric_new (- 1/10) =
     Inl (RuntimeError ''Probability of success is not between 0 and 1'') \<and>
   Geometric_setProbabilityOfSuccess \<lparr>probabilityOfSuccessG = 1/2\<rparr> (3/2) =
     Throws (RuntimeError ''Probability of success is not between 0 and 1'')
       \<lparr>probabilityOfSuccessG = 3/2\<rparr> \<and>
   Geometric_new 1 = Inr \<lparr>probabilityOfSuccessG = 1\<rparr> \<and>
   Geometric_setProbabilityOfSuccess \<lparr>probabilityOfSuccessG = 1/2\<rparr> (1/4) =
     Returns \<lparr>probabilityOfSuccessG = 1/4\<rparr>"
  using Geometric_accepts_closed_unit_interval [of "- 1/10"]
    Geometric_accepts_closed_unit_interval [of "3/2" "\<lparr>probabilityOfSuccessG = 1/2\<rparr>"]
    Geometric_accepts_closed_unit_interval [of 1]
    Geometric_accepts_closed_unit_interval [of "1/4" "\<lparr>probabilityOfSuccessG = 1/2\<rparr>"]
  by simp

text \<open>The claim as stated fails at \<open>p = 0\<close>: \<^verbatim>\<open>Geometric(0)\<close> is constructed, and the
  setter returns.\<close>

theorem Geometric_zero_probability_accepted:
  "Geometric_new 0 = Inr \<lparr>probabilityOfSuccessG = 0\<rparr> \<and>
   Geometric_setProbabilityOfSuccess \<lparr>probabilityOfSuccessG = 1/2\<rparr> 0 =
     Returns \<lparr>probabilityOfSuccessG = 0\<rparr>"
  by (simp add: Geometric_new_def Geometric_setProbabilityOfSuccess_def
      Geometric_checkProbabilityOfSuccess_def)

section \<open>The statistics engine on an empty sample\<close>

text \<open>
  Claim C5. On an empty sample \<^verbatim>\<open>calculateSum\<close> (with any transform), \<^verbatim>\<open>mean\<close>,
  \<^verbatim>\<open>variance\<close>, \<^verbatim>\<open>standardDeviation\<close> and \<^verbatim>\<open>coefficientOfVariation\<close> return 0;
  \<^verbatim>\<open>median\<close>, \<^verbatim>\<open>mode\<close> and \<^verbatim>\<open>amplitude\<close> throw ``Values are empty'' (EmptyData); and the
  object a failed \<^verbatim>\<open>median\<close> leaves is the object it was called on: nothing was sorted.
\<close>

theorem empty_sample:
  "values s = [] \<Longrightarrow>
     calculateSum s f = 0 \<and> mean s = 0 \<and> variance s = Finite 0 \<and>
     standardDeviation s = Finite 0 \<and> coefficientOfVariation s = Finite 0 \<and>
     median s = (Inl (RuntimeError ''Values are empty''), s) \<and>
     mode bucket s = Inl (RuntimeError ''Values are empty'') \<and>
     amplitude s = Inl (RuntimeError ''Values are empty'') \<and>
     EmptyData (RuntimeError ''Values are empty'') \<and>
     getValues (snd (median s)) = getValues s"
  by (simp add: calculateSum_def mean_def variance_def standardDeviation_def
      coefficientOfVariation_def median_def mode_def amplitude_def ensureNotEmpty_def
      EmptyData_def dbl_sqrt_def)

theorem empty_sample_witness:
  "calculateSum (Statistics_new [] True) real_of_int = 0 \<and>
   mean (Statistics_new [] True) = 0 \<and>
   variance (Statistics_new [] False) = Finite 0 \<and>
   standardDeviation (Statistics_new [] False) = Finite 0 \<and>
   coefficientOfVariation (Statistics_new [] True) = Finite 0 \<and>
   median (Statistics_new [] True) =
     (Inl (RuntimeError ''Values are empty''), Statistics_new [] True) \<and>
   mode (\<lambda>k. 0) (Statistics_new [] True) = Inl (RuntimeError ''Values are empty'') \<and>
   amplitude (Statistics_new [] True) = Inl (RuntimeError ''Values are empty'')"
  using empty_sample [of "Statistics_new [] True" real_of_int "\<lambda>k. 0"]
    empty_sample [of "Statistics_new [] False" real_of_int "\<lambda>k. 0"]
  by (simp add: Statistics_new_def)

end
